theory Spec2Isabelle
  imports Main "HOL-Library.Word" "HOL-Library.Monad_Syntax"
begin

unbundle bit_operations_syntax

section \<open>Words and values\<close>

text \<open>
  The runtime works on 32 bit words: \<open>word\<close> is \<open>unsigned int\<close>, \<open>sword\<close> is
  \<open>signed int\<close> and \<open>val\<close> is a \<open>word\<close>.  Pointers are cast to \<open>word\<close> and back, so
  an address is a 32 bit byte address here.  Signed quantities are kept as words and read
  with \<open>sint\<close> where the C code compares or shifts them as \<open>int\<close>.
\<close>

type_synonym word32 = "32 word"
type_synonym val = "32 word"
type_synonym addr = "32 word"

definition val_make :: "word32 \<Rightarrow> nat \<Rightarrow> word32 \<Rightarrow> val" where
  "val_make payload shift tag = push_bit shift payload OR tag"

definition val_tag :: "val \<Rightarrow> nat \<Rightarrow> word32" where
  "val_tag v shift = v AND (push_bit shift 1 - 1)"

definition val_payload :: "val \<Rightarrow> nat \<Rightarrow> word32" where
  "val_payload v shift = drop_bit shift v"

definition val_signed_payload :: "val \<Rightarrow> nat \<Rightarrow> word32" where
  "val_signed_payload v shift = signed_drop_bit shift v"

definition val_ptr_p :: "val \<Rightarrow> bool" where
  "val_ptr_p v = (val_tag v 2 \<noteq> 0 \<and> val_tag v 3 \<noteq> 7)"

definition val_ptr_make :: "addr \<Rightarrow> word32 \<Rightarrow> val" where
  "val_ptr_make ptr tag = ptr + tag"

definition val_ptr :: "val \<Rightarrow> word32 \<Rightarrow> addr" where
  "val_ptr v tag = v - tag"

definition val_ptr_any_tag :: "val \<Rightarrow> addr" where
  "val_ptr_any_tag v = v AND NOT 7"

definition head_make :: "word32 \<Rightarrow> nat \<Rightarrow> word32 \<Rightarrow> val" where
  "head_make payload shift tag = push_bit shift payload + tag"

definition head_tag :: "word32 \<Rightarrow> nat \<Rightarrow> word32" where
  "head_tag h shift = h AND (push_bit shift 1 - 1)"

definition head_payload :: "word32 \<Rightarrow> nat \<Rightarrow> word32" where
  "head_payload h shift = drop_bit shift h"

definition bool_f :: val where "bool_f = val_make 0 6 0x37"
definition bool_t :: val where "bool_t = val_make 1 6 0x37"
definition nil :: val where "nil = val_make 2 6 0x37"
definition unspec :: val where "unspec = val_make 3 6 0x37"

definition chr_p :: "val \<Rightarrow> bool" where
  "chr_p p = (val_tag p 6 = 0x27)"

definition fixnum_p :: "val \<Rightarrow> bool" where
  "fixnum_p v = (val_tag v 2 = 0)"

definition fixnum_make :: "word32 \<Rightarrow> val" where
  "fixnum_make n = val_make n 2 0"

definition fixnum_num :: "val \<Rightarrow> word32" where
  "fixnum_num v = val_signed_payload v 2"

definition pair_p :: "val \<Rightarrow> bool" where
  "pair_p v = (val_tag v 3 = 1)"

definition vec_p :: "val \<Rightarrow> bool" where
  "vec_p v = (val_tag v 3 = 2)"

definition bytev_p :: "val \<Rightarrow> bool" where
  "bytev_p v = (val_tag v 3 = 5)"

definition rec_p :: "val \<Rightarrow> bool" where
  "rec_p v = (val_tag v 3 = 3)"

section \<open>Memory\<close>

text \<open>
  The state of the runtime: the contents of memory by byte address, the allocation
  pointers of the active region, the pointers of the region a collection is filling, and
  the root stack.  \<open>mem_roots\<close> holds the current contents of the registered storage
  locations, oldest first: \<open>GC_PROTECT\<close> pushes the content of a variable, the collector
  rewrites the entries, and the owner of the variable reads its entry back after a call
  that may allocate.  The first six entries are the globals registered by \<open>boot_init\<close>.

  \<open>spare\<close> is the block that the next \<open>malloc (mem_size*4)\<close> returns (0 when it
  fails); \<open>free\<close> of a block makes it the spare one.  \<open>stack_junk\<close> is the indeterminate
  content of an uninitialised local variable.

  An access is defined only inside a block obtained from \<open>malloc\<close> and not yet freed, at
  an address that is a multiple of four; anywhere else the C code has no defined
  behaviour and the model returns \<open>None\<close>, as it does where the code calls \<open>abort\<close>.
\<close>

record heap =
  cells :: "addr \<Rightarrow> word32"
  mem_first :: addr
  mem_next :: addr
  mem_end :: addr
  mem_new_first :: addr
  mem_new_end :: addr
  mem_new_next :: addr
  mem_roots :: "val list"
  spare :: addr
  stack_junk :: word32

definition mem_size :: word32 where
  "mem_size = 217000"

definition in_block :: "addr \<Rightarrow> addr \<Rightarrow> bool" where
  "in_block base a = (base \<noteq> 0 \<and> a - base < 4 * mem_size)"

definition valid :: "heap \<Rightarrow> addr \<Rightarrow> bool" where
  "valid s a = (a AND 3 = 0 \<and> (in_block (mem_first s) a \<or> in_block (mem_new_first s) a))"

definition load :: "heap \<Rightarrow> addr \<Rightarrow> word32 option" where
  "load s a = (if valid s a then Some (cells s a) else None)"

definition store :: "addr \<Rightarrow> word32 \<Rightarrow> heap \<Rightarrow> heap option" where
  "store a w s = (if valid s a then Some (s\<lparr>cells := (cells s)(a := w)\<rparr>) else None)"

text \<open>\<open>p[i]\<close> for a \<open>val *p\<close>: the word at byte address \<open>p + 4*i\<close>.\<close>

definition idx :: "addr \<Rightarrow> word32 \<Rightarrow> addr" where
  "idx p i = p + 4 * i"

section \<open>Recognising heap objects by their first word\<close>

definition pair_ptr_p :: "heap \<Rightarrow> addr \<Rightarrow> bool option" where
  "pair_ptr_p s v = do {
     h \<leftarrow> load s v;
     Some (if head_tag h 3 = 7
           then head_tag h 6 = 0x27 \<or> head_tag h 6 = 0x37
           else head_tag h 3 \<noteq> 6)
   }"

definition vec_ptr_p :: "heap \<Rightarrow> addr \<Rightarrow> bool option" where
  "vec_ptr_p s v = do { h \<leftarrow> load s v; Some (head_tag h 4 = 15) }"

definition vec_ptr_len :: "heap \<Rightarrow> addr \<Rightarrow> word32 option" where
  "vec_ptr_len s v = do { h \<leftarrow> load s v; Some (head_payload h 4) }"

definition bytev_ptr_p :: "heap \<Rightarrow> addr \<Rightarrow> bool option" where
  "bytev_ptr_p s v = do { h \<leftarrow> load s v; Some (head_tag h 6 = 7) }"

definition bytev_ptr_len :: "heap \<Rightarrow> addr \<Rightarrow> word32 option" where
  "bytev_ptr_len s v = do { h \<leftarrow> load s v; Some (head_payload h 6) }"

definition code_ptr_p :: "heap \<Rightarrow> addr \<Rightarrow> bool option" where
  "code_ptr_p s v = do { h \<leftarrow> load s v; Some (head_tag h 6 = 0x17) }"

definition code_ptr_lit_begin :: "heap \<Rightarrow> addr \<Rightarrow> word32 option" where
  "code_ptr_lit_begin s v = do { l \<leftarrow> bytev_ptr_len s v; Some ((l + 3) div 4) }"

definition code_ptr_lit_end :: "heap \<Rightarrow> addr \<Rightarrow> word32 option" where
  "code_ptr_lit_end s v = do { b \<leftarrow> code_ptr_lit_begin s v; load s (idx v (b - 1)) }"

definition rec_ptr_p :: "heap \<Rightarrow> addr \<Rightarrow> bool option" where
  "rec_ptr_p s v = do { h \<leftarrow> load s v; Some (head_tag h 3 = 6) }"

definition rec_ptr :: "val \<Rightarrow> addr" where
  "rec_ptr v = idx (val_ptr v 3) 1"

definition rec_header_make :: "val \<Rightarrow> val" where
  "rec_header_make desc = val_ptr_make (val_ptr desc 3) 6"

definition rec_ptr_desc :: "heap \<Rightarrow> addr \<Rightarrow> val option" where
  "rec_ptr_desc s v = do { h \<leftarrow> load s v; Some (val_ptr_make (val_ptr h 6) 3) }"

section \<open>The copying collector\<close>

definition mem_install_fwd_ptr :: "addr \<Rightarrow> addr \<Rightarrow> heap \<Rightarrow> heap option" where
  "mem_install_fwd_ptr old new s = store old (val_ptr_make new 1) s"

definition mem_follow_fwd_ptr :: "heap \<Rightarrow> addr \<Rightarrow> addr option" where
  "mem_follow_fwd_ptr s ptr = do {
     w \<leftarrow> load s ptr;
     Some (if val_tag w 3 = 1 \<and> mem_new_first s \<le> val_ptr w 1 \<and> val_ptr w 1 < mem_new_end s
           then val_ptr w 1 else ptr)
   }"

text \<open>\<open>memcpy (dst, src, n)\<close> for a byte count that is a multiple of four, word by word.\<close>

fun memcpy_words :: "nat \<Rightarrow> addr \<Rightarrow> addr \<Rightarrow> heap \<Rightarrow> heap option" where
  "memcpy_words 0 dst src s = Some s"
| "memcpy_words (Suc k) dst src s = do {
     w \<leftarrow> load s src;
     s' \<leftarrow> store dst w s;
     memcpy_words k (dst + 4) (src + 4) s'
   }"

definition memcpy :: "addr \<Rightarrow> addr \<Rightarrow> word32 \<Rightarrow> heap \<Rightarrow> heap option" where
  "memcpy dst src nbytes s = memcpy_words (unat nbytes div 4) dst src s"

text \<open>\<open>abs\<close> on an \<open>int\<close>.\<close>

definition abs_int :: "word32 \<Rightarrow> word32" where
  "abs_int x = (if sint x < 0 then - x else x)"

text \<open>
  \<open>mem_copy\<close>.  The five tests of the source read the same first word of the object,
  which \<open>mem_follow_fwd_ptr\<close> has read before them; the model makes them all and then
  takes the branches in the order of the source.  In the code block branch the source has
  \<open>size += code_ptr_lit_end (ptr) + 1\<close> on the local \<open>size\<close> that has not been assigned
  yet; the model adds to \<open>stack_junk\<close>.
\<close>

definition mem_copy :: "val \<Rightarrow> heap \<Rightarrow> (val \<times> heap) option" where
  "mem_copy v s =
     (if \<not> val_ptr_p v then Some (v, s)
      else do {
        let ptr = val_ptr_any_tag v;
        fwd \<leftarrow> mem_follow_fwd_ptr s ptr;
        if fwd \<noteq> ptr then Some (val_ptr_make fwd (val_tag v 3), s)
        else do {
          is_pair \<leftarrow> pair_ptr_p s ptr;
          is_vec \<leftarrow> vec_ptr_p s ptr;
          is_bytev \<leftarrow> bytev_ptr_p s ptr;
          is_code \<leftarrow> code_ptr_p s ptr;
          is_rec \<leftarrow> rec_ptr_p s ptr;
          size \<leftarrow>
            (if is_pair then Some 2
             else if is_vec then do { l \<leftarrow> vec_ptr_len s ptr; Some (l + 1) }
             else if is_bytev then do { l \<leftarrow> bytev_ptr_len s ptr; Some ((l + 3) div 4 + 1) }
             else if is_code then do { e \<leftarrow> code_ptr_lit_end s ptr; Some (stack_junk s + (e + 1)) }
             else if is_rec then do {
               d \<leftarrow> rec_ptr_desc s ptr;
               desc_ptr \<leftarrow> mem_follow_fwd_ptr s (val_ptr d 3);
               f \<leftarrow> load s (idx desc_ptr 1);
               Some (abs_int (fixnum_num f) + 1)
             }
             else None);
          let new_ptr = mem_new_next s;
          let s1 = s\<lparr>mem_new_next := idx (mem_new_next s) ((size + 1) AND NOT 1)\<rparr>;
          s2 \<leftarrow> memcpy new_ptr ptr (size * 4) s1;
          s3 \<leftarrow> mem_install_fwd_ptr ptr new_ptr s2;
          Some (val_ptr_make new_ptr (val_tag v 3), s3)
        }
      })"

text \<open>The loop \<open>for (int i = 0; i < size; i++) ptr[i] = mem_copy (ptr[i])\<close>.\<close>

fun scan_slots :: "nat \<Rightarrow> addr \<Rightarrow> heap \<Rightarrow> heap option" where
  "scan_slots 0 ptr s = Some s"
| "scan_slots (Suc k) ptr s = do {
     w \<leftarrow> load s ptr;
     (w', s1) \<leftarrow> mem_copy w s;
     s2 \<leftarrow> store ptr w' s1;
     scan_slots k (ptr + 4) s2
   }"

text \<open>
  \<open>mem_scan\<close> returns the address of the next object.  \<open>scan_header\<close> is its first
  part, the branches on the kind of object: it gives the address of the first value
  word and the number of value words.  \<open>size\<close> is an \<open>int\<close>: the loop runs \<open>size\<close> times
  when it is positive and not at all otherwise.
\<close>

definition scan_header :: "addr \<Rightarrow> heap \<Rightarrow> (addr \<times> word32 \<times> heap) option" where
  "scan_header orig s = do {
     is_pair \<leftarrow> pair_ptr_p s orig;
     is_vec \<leftarrow> vec_ptr_p s orig;
     is_bytev \<leftarrow> bytev_ptr_p s orig;
     is_code \<leftarrow> code_ptr_p s orig;
     is_rec \<leftarrow> rec_ptr_p s orig;
     if is_pair then Some (orig, 2, s)
     else if is_vec then do { l \<leftarrow> vec_ptr_len s orig; Some (idx orig 1, l, s) }
     else if is_bytev then do {
       l \<leftarrow> bytev_ptr_len s orig;
       Some (idx orig ((l + 3) div 4 + 1), 0, s)
     }
     else if is_code then do {
       b \<leftarrow> code_ptr_lit_begin s orig;
       e \<leftarrow> code_ptr_lit_end s orig;
       Some (idx orig b, e - b, s)
     }
     else if is_rec then do {
       d \<leftarrow> rec_ptr_desc s orig;
       (desc, s1) \<leftarrow> mem_copy d s;
       s2 \<leftarrow> store orig (rec_header_make desc) s1;
       f \<leftarrow> load s2 (rec_ptr desc);
       let size = fixnum_num f;
       let ptr = idx orig 1;
       Some (if sint size < 0 then (idx ptr size, 0, s2) else (ptr, size, s2))
     }
     else None
   }"

definition mem_scan :: "addr \<Rightarrow> heap \<Rightarrow> (addr \<times> heap) option" where
  "mem_scan orig s = do {
     (ptr, size, s1) \<leftarrow> scan_header orig s;
     s2 \<leftarrow> scan_slots (nat (sint size)) ptr s1;
     Some ((idx ptr size + 4) AND NOT 7, s2)
   }"

text \<open>The loop over the registered roots, in order.\<close>

fun copy_roots :: "val list \<Rightarrow> heap \<Rightarrow> (val list \<times> heap) option" where
  "copy_roots [] s = Some ([], s)"
| "copy_roots (r # rs) s = do {
     (r', s1) \<leftarrow> mem_copy r s;
     (rs', s2) \<leftarrow> copy_roots rs s1;
     Some (r' # rs', s2)
   }"

text \<open>
  The loop \<open>while (ptr < mem_new_next) ptr = mem_scan (ptr)\<close>.  Nothing in the code
  bounds it, so it is a partial function: \<open>None\<close> also stands for a loop that never ends.
\<close>

partial_function (option) scan_loop :: "addr \<Rightarrow> heap \<Rightarrow> heap option" where
  "scan_loop ptr s =
     (if ptr < mem_new_next s
      then (case mem_scan ptr s of None \<Rightarrow> None | Some (ptr', s') \<Rightarrow> scan_loop ptr' s')
      else Some s)"

text \<open>
  \<open>mem_gc\<close>, built without \<open>DEBUG\<close>.  \<open>new_region\<close> is its first part, which takes the
  new region from \<open>malloc\<close>.  The difference \<open>mem_new_end - mem_new_next\<close> is a signed
  count of words.
\<close>

definition new_region :: "heap \<Rightarrow> heap" where
  "new_region s = s\<lparr>mem_new_first := spare s, mem_new_end := idx (spare s) mem_size,
                    mem_new_next := spare s, spare := 0\<rparr>"

definition mem_gc :: "word32 \<Rightarrow> heap \<Rightarrow> (addr \<times> heap) option" where
  "mem_gc n s =
     (if spare s = 0 then None
      else do {
        let s1 = new_region s;
        (rs, s2) \<leftarrow> copy_roots (mem_roots s1) s1;
        s3 \<leftarrow> scan_loop (mem_new_first s2) (s2\<lparr>mem_roots := rs\<rparr>);
        let s4 = s3\<lparr>spare := mem_first s3, mem_first := mem_new_first s3,
                    mem_end := mem_new_end s3, mem_next := mem_new_next s3,
                    mem_new_first := 0\<rparr>;
        if sint (mem_new_end s4 - mem_new_next s4) div 4 < sint n then None
        else Some (mem_next s4, s4)
      })"

section \<open>Allocation\<close>

definition DEBUG_GC_BEFORE_ALLOC :: bool where
  "DEBUG_GC_BEFORE_ALLOC = True"

definition mem_alloc :: "word32 \<Rightarrow> heap \<Rightarrow> (addr \<times> heap) option" where
  "mem_alloc n s = do {
     (ptr, s1) \<leftarrow> (if mem_end s < idx (mem_next s) n \<or> DEBUG_GC_BEFORE_ALLOC
                    then mem_gc n s else Some (mem_next s, s));
     Some (ptr, s1\<lparr>mem_next := idx ptr ((n + 1) AND NOT 1)\<rparr>)
   }"

definition pair_alloc :: "heap \<Rightarrow> (val \<times> heap) option" where
  "pair_alloc s = do { (ptr, s1) \<leftarrow> mem_alloc 2 s; Some (val_ptr_make ptr 1, s1) }"

definition pair_ptr :: "val \<Rightarrow> addr" where
  "pair_ptr v = val_ptr v 1"

definition vec_alloc :: "word32 \<Rightarrow> heap \<Rightarrow> (val \<times> heap) option" where
  "vec_alloc len s = do {
     (ptr, s1) \<leftarrow> mem_alloc (len + 1) s;
     s2 \<leftarrow> store ptr (head_make len 4 15) s1;
     Some (val_ptr_make ptr 2, s2)
   }"

definition vec_len :: "heap \<Rightarrow> val \<Rightarrow> word32 option" where
  "vec_len s v = vec_ptr_len s (val_ptr v 2)"

definition vec_ptr :: "val \<Rightarrow> addr" where
  "vec_ptr v = idx (val_ptr v 2) 1"

definition rec_alloc :: "word32 \<Rightarrow> heap \<Rightarrow> (val \<times> heap) option" where
  "rec_alloc len s = do { (ptr, s1) \<leftarrow> mem_alloc (len + 1) s; Some (val_ptr_make ptr 3, s1) }"

definition rec_set_desc :: "val \<Rightarrow> val \<Rightarrow> heap \<Rightarrow> heap option" where
  "rec_set_desc v desc s = store (idx (rec_ptr v) (- 1)) (rec_header_make desc) s"

definition rec_desc :: "heap \<Rightarrow> val \<Rightarrow> val option" where
  "rec_desc s v = rec_ptr_desc s (val_ptr v 3)"

section \<open>The heap checker\<close>

text \<open>
  \<open>mem_check\<close> keeps a shadow array of \<open>mem_size\<close> words, indexed by the word offset
  of an address from \<open>mem_first\<close>.  An index beyond the array is an undefined access.
\<close>

definition shadow_index :: "heap \<Rightarrow> addr \<Rightarrow> word32 option" where
  "shadow_index s p =
     (let i = (p - mem_first s) div 4 in if i < mem_size then Some i else None)"

text \<open>The first pass records the size of every object at its start.\<close>

partial_function (option) check_sizes ::
  "addr \<Rightarrow> (word32 \<Rightarrow> word32) \<Rightarrow> heap \<Rightarrow> (word32 \<Rightarrow> word32) option" where
  "check_sizes ptr shadow s =
     (if ptr < mem_next s then
        (case
           (do {
              is_pair \<leftarrow> pair_ptr_p s ptr;
              is_vec \<leftarrow> vec_ptr_p s ptr;
              is_bytev \<leftarrow> bytev_ptr_p s ptr;
              is_code \<leftarrow> code_ptr_p s ptr;
              is_rec \<leftarrow> rec_ptr_p s ptr;
              size \<leftarrow>
                (if is_pair then Some 2
                 else if is_vec then do { l \<leftarrow> vec_ptr_len s ptr; Some (l + 1) }
                 else if is_bytev then do { l \<leftarrow> bytev_ptr_len s ptr; Some ((l + 3) div 4 + 1) }
                 else if is_code then do { e \<leftarrow> code_ptr_lit_end s ptr; Some (e + 1) }
                 else if is_rec then do {
                   desc \<leftarrow> rec_ptr_desc s ptr;
                   if \<not> rec_p desc then None
                   else do { f \<leftarrow> load s (rec_ptr desc); Some (fixnum_num f + 1) }
                 }
                 else None);
              i \<leftarrow> shadow_index s ptr;
              Some (shadow(i := size), (idx ptr size + 4) AND NOT 7)
            })
         of None \<Rightarrow> None
          | Some (shadow', ptr') \<Rightarrow> check_sizes ptr' shadow' s)
      else Some shadow)"

text \<open>
  The inner loop of the second pass, over the value words of one object.  For a pointer
  whose target has no recorded size the source has the statement \<open>abort;\<close>, which names
  the function without calling it, so nothing happens there.
\<close>

partial_function (option) check_values ::
  "addr \<Rightarrow> addr \<Rightarrow> (word32 \<Rightarrow> word32) \<Rightarrow> heap \<Rightarrow> unit option" where
  "check_values ptr end shadow s =
     (if ptr < end then
        (case
           (do {
              v \<leftarrow> load s ptr;
              if val_ptr_p v then do {
                let p = val_ptr_any_tag v;
                if p < mem_first s \<or> mem_end s < p then None
                else do {
                  i \<leftarrow> shadow_index s p;
                  let z = shadow i;
                  Some ()
                }
              }
              else Some ()
            })
         of None \<Rightarrow> None
          | Some u \<Rightarrow> check_values (ptr + 4) end shadow s)
      else Some ())"

partial_function (option) check_objects ::
  "addr \<Rightarrow> (word32 \<Rightarrow> word32) \<Rightarrow> heap \<Rightarrow> unit option" where
  "check_objects ptr shadow s =
     (if ptr < mem_next s then
        (case
           (do {
              i \<leftarrow> shadow_index s ptr;
              let size = shadow i;
              if size = 0 then None
              else do {
                let end = idx ptr size;
                is_pair \<leftarrow> pair_ptr_p s ptr;
                is_vec \<leftarrow> vec_ptr_p s ptr;
                is_bytev \<leftarrow> bytev_ptr_p s ptr;
                is_code \<leftarrow> code_ptr_p s ptr;
                is_rec \<leftarrow> rec_ptr_p s ptr;
                first \<leftarrow>
                  (if is_pair then Some ptr
                   else if is_vec then Some (idx ptr 1)
                   else if is_bytev then Some (idx ptr size)
                   else if is_code then do { b \<leftarrow> code_ptr_lit_begin s ptr; Some (idx ptr (b + 1)) }
                   else if is_rec then Some (idx ptr 1)
                   else None);
                u \<leftarrow> check_values first end shadow s;
                Some ((end + 4) AND NOT 7)
              }
            })
         of None \<Rightarrow> None
          | Some ptr' \<Rightarrow> check_objects ptr' shadow s)
      else Some ())"

definition mem_check :: "heap \<Rightarrow> unit option" where
  "mem_check s = do {
     shadow \<leftarrow> check_sizes (mem_first s) (\<lambda>i. 0) s;
     check_objects (mem_first s) shadow s
   }"

section \<open>Bootstrap primitives\<close>

text \<open>
  \<open>GC_PROTECT\<close> pushes the content of a variable on the root stack, which has room for
  200 entries.  \<open>root\<close> reads the content of a registered variable back.
\<close>

definition GC_PROTECT :: "val \<Rightarrow> heap \<Rightarrow> heap option" where
  "GC_PROTECT v s =
     (if length (mem_roots s) < 200 then Some (s\<lparr>mem_roots := mem_roots s @ [v]\<rparr>) else None)"

definition GC_END :: "nat \<Rightarrow> heap \<Rightarrow> heap" where
  "GC_END gc_start s = s\<lparr>mem_roots := take gc_start (mem_roots s)\<rparr>"

definition root :: "heap \<Rightarrow> nat \<Rightarrow> val option" where
  "root s i = (if i < length (mem_roots s) then Some (mem_roots s ! i) else None)"

definition car :: "heap \<Rightarrow> val \<Rightarrow> val option" where
  "car s v = load s (idx (pair_ptr v) 0)"

definition cdr :: "heap \<Rightarrow> val \<Rightarrow> val option" where
  "cdr s v = load s (idx (pair_ptr v) 1)"

definition set_car :: "val \<Rightarrow> val \<Rightarrow> heap \<Rightarrow> heap option" where
  "set_car v x s = store (idx (pair_ptr v) 0) x s"

definition set_cdr :: "val \<Rightarrow> val \<Rightarrow> heap \<Rightarrow> heap option" where
  "set_cdr v x s = store (idx (pair_ptr v) 1) x s"

definition cons :: "val \<Rightarrow> val \<Rightarrow> heap \<Rightarrow> (val \<times> heap) option" where
  "cons a d s = do {
     let gc_start = length (mem_roots s);
     s1 \<leftarrow> GC_PROTECT a s;
     s2 \<leftarrow> GC_PROTECT d s1;
     (v, s3) \<leftarrow> pair_alloc s2;
     a' \<leftarrow> root s3 gc_start;
     d' \<leftarrow> root s3 (gc_start + 1);
     s4 \<leftarrow> set_car v a' s3;
     s5 \<leftarrow> set_cdr v d' s4;
     Some (v, GC_END gc_start s5)
   }"

definition vec_ref :: "heap \<Rightarrow> val \<Rightarrow> word32 \<Rightarrow> val option" where
  "vec_ref s v i = load s (idx (vec_ptr v) i)"

definition vec_set :: "val \<Rightarrow> word32 \<Rightarrow> val \<Rightarrow> heap \<Rightarrow> heap option" where
  "vec_set v i x s = store (idx (vec_ptr v) i) x s"

text \<open>The loop \<open>for (int i = 0; i < len; i++) vec_set (v, i, init)\<close>, from \<open>i\<close> on.\<close>

fun vec_fill :: "nat \<Rightarrow> val \<Rightarrow> word32 \<Rightarrow> val \<Rightarrow> heap \<Rightarrow> heap option" where
  "vec_fill 0 v i x s = Some s"
| "vec_fill (Suc k) v i x s = do { s' \<leftarrow> vec_set v i x s; vec_fill k v (i + 1) x s' }"

definition vec_make :: "word32 \<Rightarrow> val \<Rightarrow> heap \<Rightarrow> (val \<times> heap) option" where
  "vec_make len init s = do {
     let gc_start = length (mem_roots s);
     s1 \<leftarrow> GC_PROTECT init s;
     (v, s2) \<leftarrow> vec_alloc len s1;
     init' \<leftarrow> root s2 gc_start;
     s3 \<leftarrow> vec_fill (unat len) v 0 init' s2;
     Some (v, GC_END gc_start s3)
   }"

definition rec_ref :: "heap \<Rightarrow> val \<Rightarrow> word32 \<Rightarrow> val option" where
  "rec_ref s v i = load s (idx (rec_ptr v) i)"

definition rec_set :: "val \<Rightarrow> word32 \<Rightarrow> val \<Rightarrow> heap \<Rightarrow> heap option" where
  "rec_set v i x s = store (idx (rec_ptr v) i) x s"

text \<open>
  \<open>rec_make (type, ...)\<close>: the variable arguments are a list; the descriptor says how
  many of them are read.  Reading more arguments than were passed is undefined.
\<close>

fun protect_all :: "val list \<Rightarrow> heap \<Rightarrow> heap option" where
  "protect_all [] s = Some s"
| "protect_all (x # xs) s = do { s' \<leftarrow> GC_PROTECT x s; protect_all xs s' }"

fun rec_fill :: "nat \<Rightarrow> val \<Rightarrow> word32 \<Rightarrow> nat \<Rightarrow> heap \<Rightarrow> heap option" where
  "rec_fill 0 v i r s = Some s"
| "rec_fill (Suc k) v i r s = do {
     x \<leftarrow> root s r;
     s' \<leftarrow> rec_set v i x s;
     rec_fill k v (i + 1) (r + 1) s'
   }"

definition rec_make :: "val \<Rightarrow> val list \<Rightarrow> heap \<Rightarrow> (val \<times> heap) option" where
  "rec_make type args s = do {
     f0 \<leftarrow> rec_ref s type 0;
     let n = fixnum_num f0;
     let k = nat (sint n);
     let gc_start = length (mem_roots s);
     s1 \<leftarrow> GC_PROTECT type s;
     s2 \<leftarrow> (if k \<le> length args then protect_all (take k args) s1 else None);
     (v, s3) \<leftarrow> rec_alloc n s2;
     type' \<leftarrow> root s3 gc_start;
     s4 \<leftarrow> rec_set_desc v type' s3;
     s5 \<leftarrow> rec_fill k v 0 (gc_start + 1) s4;
     Some (v, GC_END gc_start s5)
   }"

text \<open>\<open>boot_function_type\<close> is the fourth global registered by \<open>boot_init\<close>.\<close>

definition boot_function_type :: "heap \<Rightarrow> val option" where
  "boot_function_type s = root s 3"

section \<open>The bootstrap evaluator\<close>

definition boot_op_if :: word32 where "boot_op_if = 0"
definition boot_op_lambda :: word32 where "boot_op_lambda = 1"
definition boot_op_call :: word32 where "boot_op_call = 2"
definition boot_op_apply :: word32 where "boot_op_apply = 3"
definition boot_op_quote :: word32 where "boot_op_quote = 4"
definition boot_op_set :: word32 where "boot_op_set = 5"
definition boot_op_sum :: word32 where "boot_op_sum = 6"
definition boot_op_mul :: word32 where "boot_op_mul = 7"

text \<open>
  The loops of \<open>boot_op_sum_func\<close> and \<open>boot_op_mul_func\<close>, from index \<open>i\<close> on with the
  accumulator \<open>x\<close>, an \<open>int\<close> whose arithmetic wraps around at 32 bits.
\<close>

fun sum_loop :: "nat \<Rightarrow> heap \<Rightarrow> val \<Rightarrow> word32 \<Rightarrow> word32 \<Rightarrow> word32 option" where
  "sum_loop 0 s vals i x = Some x"
| "sum_loop (Suc k) s vals i x = do {
     v \<leftarrow> vec_ref s vals i;
     sum_loop k s vals (i + 1) (x + fixnum_num v)
   }"

fun mul_loop :: "nat \<Rightarrow> heap \<Rightarrow> val \<Rightarrow> word32 \<Rightarrow> word32 \<Rightarrow> word32 option" where
  "mul_loop 0 s vals i x = Some x"
| "mul_loop (Suc k) s vals i x = do {
     v \<leftarrow> vec_ref s vals i;
     mul_loop k s vals (i + 1) (x * fixnum_num v)
   }"

definition boot_op_sum_func :: "heap \<Rightarrow> val \<Rightarrow> val option" where
  "boot_op_sum_func s vals = do {
     l \<leftarrow> vec_len s vals;
     x \<leftarrow> sum_loop (unat l - 1) s vals 1 0;
     Some (fixnum_make x)
   }"

definition boot_op_mul_func :: "heap \<Rightarrow> val \<Rightarrow> val option" where
  "boot_op_mul_func s vals = do {
     l \<leftarrow> vec_len s vals;
     x \<leftarrow> mul_loop (unat l - 1) s vals 1 1;
     Some (fixnum_make x)
   }"

text \<open>
  The table \<open>boot_op_funcs\<close> has entries for \<open>sum\<close> and \<open>mul\<close> only; a call through any
  other entry is undefined.
\<close>

definition boot_op_funcs :: "word32 \<Rightarrow> heap \<Rightarrow> val \<Rightarrow> val option" where
  "boot_op_funcs op s vals =
     (if op = boot_op_sum then boot_op_sum_func s vals
      else if op = boot_op_mul then boot_op_mul_func s vals
      else None)"

text \<open>
  The local variables of \<open>boot_eval\<close>.  The first six are registered roots for the whole
  call; \<open>protected\<close> runs an allocating call with their contents on the root stack and
  takes them back afterwards, as rewritten by the collector.
\<close>

record vars =
  form :: val
  stack :: val
  env :: val
  top_result :: val
  top_form :: val
  "value" :: val
  top_op :: word32
  top_pos :: word32

definition protected ::
  "vars \<Rightarrow> (heap \<Rightarrow> ('a \<times> heap) option) \<Rightarrow> heap \<Rightarrow> ('a \<times> vars \<times> heap) option" where
  "protected e f s = do {
     let gc_start = length (mem_roots s);
     s1 \<leftarrow> protect_all [form e, stack e, env e, top_result e, top_form e, value e] s;
     (r, s2) \<leftarrow> f s1;
     x0 \<leftarrow> root s2 gc_start;
     x1 \<leftarrow> root s2 (gc_start + 1);
     x2 \<leftarrow> root s2 (gc_start + 2);
     x3 \<leftarrow> root s2 (gc_start + 3);
     x4 \<leftarrow> root s2 (gc_start + 4);
     x5 \<leftarrow> root s2 (gc_start + 5);
     Some (r, e\<lparr>form := x0, stack := x1, env := x2, top_result := x3, top_form := x4,
                value := x5\<rparr>, GC_END gc_start s2)
   }"

text \<open>The macros \<open>PUSH (FORM, OP)\<close>, applied to the variable \<open>form\<close>, and \<open>POP\<close>.\<close>

definition PUSH :: "word32 \<Rightarrow> vars \<Rightarrow> heap \<Rightarrow> (vars \<times> heap) option" where
  "PUSH op e s = do {
     (f, e1, s1) \<leftarrow> protected e (vec_alloc 3) s;
     s2 \<leftarrow> vec_set f 0 (top_form e1) s1;
     s3 \<leftarrow> vec_set f 1 (top_result e1) s2;
     s4 \<leftarrow> vec_set f 2 (fixnum_make (top_pos e1)) s3;
     (c, e2, s5) \<leftarrow> protected e1 (cons f (stack e1)) s4;
     let e3 = e2\<lparr>stack := c\<rparr>;
     let e4 = e3\<lparr>top_form := form e3\<rparr>;
     l \<leftarrow> vec_len s5 (form e4);
     (r, e5, s6) \<leftarrow> protected e4 (vec_make l unspec) s5;
     Some (e5\<lparr>top_result := r, top_op := op, top_pos := 1\<rparr>, s6)
   }"

definition POP :: "vars \<Rightarrow> heap \<Rightarrow> vars option" where
  "POP e s = do {
     f \<leftarrow> car s (stack e);
     tf \<leftarrow> vec_ref s f 0;
     tr \<leftarrow> vec_ref s f 1;
     tp \<leftarrow> vec_ref s f 2;
     op \<leftarrow> vec_ref s tf 0;
     st \<leftarrow> cdr s (stack e);
     Some (e\<lparr>top_form := tf, top_result := tr, top_pos := fixnum_num tp,
             top_op := fixnum_num op, stack := st\<rparr>)
   }"

text \<open>The loop \<open>while (up > 0) { f = cdr (f); up = up - 1; }\<close>.\<close>

fun frame_up :: "nat \<Rightarrow> heap \<Rightarrow> val \<Rightarrow> val option" where
  "frame_up 0 s f = Some f"
| "frame_up (Suc k) s f = do { f' \<leftarrow> cdr s f; frame_up k s f' }"

text \<open>
  The three labels of \<open>boot_eval\<close>.  Each function runs the code from its label to the
  next \<open>goto\<close> and says where control goes, or that \<open>boot_eval\<close> returns.
\<close>

datatype label = Eval_form | Do_op_step | Use_value

datatype outcome = Goto label vars heap | Return val heap

definition eval_form :: "vars \<Rightarrow> heap \<Rightarrow> outcome option" where
  "eval_form e s =
     (if pair_p (form e) then do {
        a \<leftarrow> car s (form e);
        d \<leftarrow> cdr s (form e);
        f \<leftarrow> frame_up (nat (sint (fixnum_num a))) s (env e);
        fr \<leftarrow> car s f;
        v \<leftarrow> vec_ref s fr (fixnum_num d + 2);
        Some (Goto Use_value (e\<lparr>value := v\<rparr>) s)
      }
      else if vec_p (form e) then do {
        w \<leftarrow> vec_ref s (form e) 0;
        let op = fixnum_num w;
        if op = boot_op_quote then do {
          v \<leftarrow> vec_ref s (form e) 1;
          Some (Goto Use_value (e\<lparr>value := v\<rparr>) s)
        }
        else if op = boot_op_lambda then do {
          t \<leftarrow> boot_function_type s;
          b \<leftarrow> vec_ref s (form e) 1;
          (v, e1, s1) \<leftarrow> protected e (rec_make t [b, env e]) s;
          Some (Goto Use_value (e1\<lparr>value := v\<rparr>) s1)
        }
        else do {
          (e1, s1) \<leftarrow> PUSH op e s;
          Some (Goto Do_op_step e1 s1)
        }
      }
      else Some (Goto Use_value (e\<lparr>value := form e\<rparr>) s))"

text \<open>The loop \<open>for (int i = 0; i < l; i++) vec_set (f, i+2, vec_ref (value, i))\<close>.\<close>

fun splat :: "nat \<Rightarrow> val \<Rightarrow> val \<Rightarrow> word32 \<Rightarrow> heap \<Rightarrow> heap option" where
  "splat 0 f v i s = Some s"
| "splat (Suc k) f v i s = do {
     x \<leftarrow> vec_ref s v i;
     s' \<leftarrow> vec_set f (i + 2) x s;
     splat k f v (i + 1) s'
   }"

definition do_op_step :: "vars \<Rightarrow> heap \<Rightarrow> outcome option" where
  "do_op_step e s =
     (if top_op e = boot_op_if then
        (if top_pos e = 1 then do {
           f \<leftarrow> vec_ref s (top_form e) (top_pos e);
           Some (Goto Eval_form (e\<lparr>form := f\<rparr>) s)
         }
         else do {
           c \<leftarrow> vec_ref s (top_result e) 1;
           f \<leftarrow> (if c \<noteq> nil then vec_ref s (top_form e) 2 else vec_ref s (top_form e) 3);
           e' \<leftarrow> POP (e\<lparr>form := f\<rparr>) s;
           Some (Goto Eval_form e' s)
         })
      else if top_op e = boot_op_set then
        (if top_pos e = 1 then do {
           f \<leftarrow> vec_ref s (top_form e) 2;
           Some (Goto Eval_form (e\<lparr>top_pos := 2, form := f\<rparr>) s)
         }
         else do {
           c \<leftarrow> vec_ref s (top_form e) 1;
           a \<leftarrow> car s c;
           d \<leftarrow> cdr s c;
           f \<leftarrow> frame_up (nat (sint (fixnum_num a))) s (env e);
           v \<leftarrow> vec_ref s (form e) 1;
           fr \<leftarrow> car s f;
           s' \<leftarrow> vec_set fr (fixnum_num d + 2) v s;
           e' \<leftarrow> POP (e\<lparr>value := v\<rparr>) s';
           Some (Goto Use_value e' s')
         })
      else do {
        l \<leftarrow> vec_len s (top_form e);
        if l \<le> top_pos e then
          (if top_op e = boot_op_call then do {
             func \<leftarrow> vec_ref s (top_result e) 1;
             f \<leftarrow> rec_ref s func 0;
             c \<leftarrow> rec_ref s func 1;
             (en, e1, s1) \<leftarrow> protected (e\<lparr>form := f\<rparr>) (cons (top_result e) c) s;
             e2 \<leftarrow> POP (e1\<lparr>env := en\<rparr>) s1;
             Some (Goto Eval_form e2 s1)
           }
           else if top_op e = boot_op_apply then do {
             func \<leftarrow> vec_ref s (top_result e) 1;
             f \<leftarrow> rec_ref s func 0;
             c \<leftarrow> rec_ref s func 1;
             v \<leftarrow> vec_ref s (top_result e) 2;
             n \<leftarrow> vec_len s v;
             (fr, e1, s1) \<leftarrow> protected (e\<lparr>form := f, env := c, value := v\<rparr>) (vec_alloc (n + 2)) s;
             s2 \<leftarrow> splat (nat (sint n)) fr (value e1) 0 s1;
             (en, e2, s3) \<leftarrow> protected e1 (cons fr (env e1)) s2;
             e3 \<leftarrow> POP (e2\<lparr>env := en\<rparr>) s3;
             Some (Goto Eval_form e3 s3)
           }
           else do {
             v \<leftarrow> boot_op_funcs (top_op e) s (top_result e);
             e' \<leftarrow> POP (e\<lparr>value := v\<rparr>) s;
             Some (Goto Use_value e' s)
           })
        else do {
          f \<leftarrow> vec_ref s (top_form e) (top_pos e);
          Some (Goto Eval_form (e\<lparr>form := f\<rparr>) s)
        }
      })"

definition use_value :: "vars \<Rightarrow> heap \<Rightarrow> outcome option" where
  "use_value e s =
     (if top_result e = nil then Some (Return (value e) s)
      else do {
        s' \<leftarrow> vec_set (top_result e) (top_pos e) (value e) s;
        Some (Goto Do_op_step (e\<lparr>top_pos := top_pos e + 1\<rparr>) s')
      })"

definition step :: "label \<Rightarrow> vars \<Rightarrow> heap \<Rightarrow> outcome option" where
  "step l e s =
     (case l of Eval_form \<Rightarrow> eval_form e s
              | Do_op_step \<Rightarrow> do_op_step e s
              | Use_value \<Rightarrow> use_value e s)"

text \<open>
  The evaluator follows the \<open>goto\<close>s until \<open>use_value\<close> returns.  A program may run for
  ever, so the loop is a partial function.
\<close>

partial_function (option) run :: "label \<Rightarrow> vars \<Rightarrow> heap \<Rightarrow> (val \<times> heap) option" where
  "run l e s =
     (case step l e s of
        None \<Rightarrow> None
      | Some (Return v s') \<Rightarrow> Some (v, s')
      | Some (Goto l' e' s') \<Rightarrow> run l' e' s')"

definition boot_eval :: "val \<Rightarrow> heap \<Rightarrow> (val \<times> heap) option" where
  "boot_eval frm s = do {
     let e = \<lparr>form = frm, stack = nil, env = nil, top_result = nil, top_form = nil,
              value = nil, top_op = stack_junk s, top_pos = stack_junk s\<rparr>;
     (tf, e1, s1) \<leftarrow> protected e (vec_make 1 (fixnum_make boot_op_sum)) s;
     run Eval_form (e1\<lparr>top_form := tf, top_pos := 1, top_op := boot_op_sum\<rparr>) s1
   }"

section \<open>What a collection leaves alone\<close>


section \<open>Example heaps\<close>

text \<open>
  Memory that holds the words \<open>lo\<close> from address \<open>0x100000\<close> on and the words \<open>hi\<close>
  from address \<open>0x200000\<close> on, and zero everywhere else.
\<close>

definition image2 :: "word32 list \<Rightarrow> word32 list \<Rightarrow> addr \<Rightarrow> word32" where
  "image2 lo hi a =
     (let i = a - 0x100000; j = a - 0x200000 in
      if i AND 3 = 0 \<and> i < 0x100000 then
        (if unat i div 4 < length lo then lo ! (unat i div 4) else 0)
      else if j AND 3 = 0 \<and> j < 0x100000 then
        (if unat j div 4 < length hi then hi ! (unat j div 4) else 0)
      else 0)"

text \<open>
  A heap whose active region starts at \<open>0x100000\<close> and holds the given words, with the
  spare region at \<open>0x200000\<close>.
\<close>

definition heap_of :: "word32 list \<Rightarrow> val list \<Rightarrow> heap" where
  "heap_of ws rs =
     \<lparr>cells = image2 ws [], mem_first = 0x100000,
      mem_next = idx 0x100000 (of_nat (length ws)), mem_end = idx 0x100000 mem_size,
      mem_new_first = 0, mem_new_end = 0, mem_new_next = 0,
      mem_roots = rs, spare = 0x200000, stack_junk = 0\<rparr>"

text \<open>
  A heap with three records.  At \<open>0x100000\<close> the record type of record types, which
  describes itself and has two value fields; at \<open>0x100010\<close> a record type whose field 0 is
  the small integer -2, for records of two raw words; at \<open>0x100020\<close> a record of that
  type.  The only root is the raw record.
\<close>

definition raw_heap :: heap where
  "raw_heap =
     heap_of [0x100006, fixnum_make 2, nil, 0,
              0x100006, fixnum_make (- 2), nil, 0,
              0x100016, 0x11111110, 0x22222220, 0]
             [0x100023]"

text \<open>
  A heap with one code block: the header for 8 bytes, the word 3 that
  \<open>code_ptr_lit_end\<close> reads, and one literal between the indices 2 and 3.  The local
  \<open>size\<close> of \<open>mem_copy\<close> happens to hold 4.
\<close>

definition code_heap :: heap where
  "code_heap = (heap_of [head_make 8 6 0x17, 3, fixnum_make 7, 0] [0x100005])\<lparr>stack_junk := 4\<rparr>"

text \<open>
  A heap with one vector of three elements.  Element 0 is a pair pointer to \<open>0x100008\<close>,
  the address of element 1, where no object starts.
\<close>

definition dangling_heap :: heap where
  "dangling_heap = heap_of [head_make 3 4 15, 0x100009, fixnum_make 1, fixnum_make 2] []"

text \<open>A heap with one pair, \<open>(1 . ())\<close>, which is the only root.\<close>

definition pair_heap :: heap where
  "pair_heap = heap_of [fixnum_make 1, nil] [0x100001]"




text \<open>
  A heap with the form \<open>[sum [quote 536870911] [quote 2]]\<close> at \<open>0x100000\<close>, and at
  \<open>0x100030\<close> a result vector that holds the two small integers.
\<close>

definition overflow_heap :: heap where
  "overflow_heap =
     heap_of [head_make 3 4 15, fixnum_make boot_op_sum, 0x100012, 0x100022,
              head_make 2 4 15, fixnum_make boot_op_quote, fixnum_make 536870911, 0,
              head_make 2 4 15, fixnum_make boot_op_quote, fixnum_make 2, 0,
              head_make 3 4 15, unspec, fixnum_make 536870911, fixnum_make 2]
             [nil, nil, nil, nil, nil, nil]"

text \<open>
  The state of the evaluator on the form
  \<open>[call [lambda [set (0 . 0) [sum [quote 1] [quote 2]]]] [quote 10]]\<close> when the second
  argument of \<open>set\<close> has been evaluated.  The \<open>set\<close> form is at \<open>0x100000\<close>, its second
  argument \<open>[sum [quote 1] [quote 2]]\<close> at \<open>0x100018\<close>; the result vector of the \<open>set\<close> frame
  at \<open>0x100048\<close> holds the value 3 of that argument in slot 2; the environment is the
  frame at \<open>0x100058\<close> with the argument 10 of the call in slot 2.  The variable \<open>form\<close>
  still holds the form evaluated last, \<open>[quote 2]\<close> at \<open>0x100038\<close>.
\<close>

definition set_frame_heap :: heap where
  "set_frame_heap =
     heap_of [head_make 3 4 15, fixnum_make boot_op_set, 0x100011, 0x10001A,
              fixnum_make 0, fixnum_make 0,
              head_make 3 4 15, fixnum_make boot_op_sum, 0x10002A, 0x10003A,
              head_make 2 4 15, fixnum_make boot_op_quote, fixnum_make 1, 0,
              head_make 2 4 15, fixnum_make boot_op_quote, fixnum_make 2, 0,
              head_make 3 4 15, unspec, unspec, fixnum_make 3,
              head_make 3 4 15, unspec, nil, fixnum_make 10,
              0x10005A, nil,
              head_make 1 4 15, fixnum_make boot_op_sum,
              head_make 3 4 15, 0x100072, nil, fixnum_make 1,
              0x10007A, nil]
             [nil, nil, nil, nil, nil, nil]"

definition set_vars :: vars where
  "set_vars = \<lparr>form = 0x10003A, stack = 0x100089, env = 0x100069, top_result = 0x10004A,
               top_form = 0x100002, value = fixnum_make 3, top_op = boot_op_set, top_pos = 3\<rparr>"

section \<open>Rules for running the definitions on a given heap\<close>

text \<open>
  A store into \<open>image2\<close> is again an \<open>image2\<close>, so that the memory of a run on an example
  heap stays a pair of word lists.
\<close>

lemma unat_and3:
  fixes x :: word32
  shows "unat (x AND 3) = unat x mod 4"
proof -
  have "x AND 3 = take_bit 2 x"
    by (simp add: take_bit_eq_mask mask_eq_exp_minus_1)
  then show ?thesis
    by (simp add: unsigned_take_bit_eq take_bit_eq_mod unat_mod)
qed


lemma and3_mod4:
  fixes x :: word32
  shows "(x AND 3 = 0) = (unat x mod 4 = 0)"
  by (metis unat_and3 unat_eq_0)


lemma aligned_div4_inj:
  fixes x y :: word32
  assumes "x AND 3 = 0" "y AND 3 = 0" "unat x div 4 = unat y div 4"
  shows "x = y"
proof -
  have "unat x mod 4 = 0" "unat y mod 4 = 0"
    using assms by (simp_all add: and3_mod4)
  then have "unat x = unat y"
    using assms(3) by (metis div_mult_mod_eq)
  then show ?thesis by (simp add: word_unat_eq_iff)
qed

lemma padded_nth:
  "(if k < length (xs @ replicate n (0::word32)) then (xs @ replicate n 0) ! k else 0) =
   (if k < length xs then xs ! k else 0)"
  by (simp add: nth_append)

lemma upd_nth:
  assumes "k \<noteq> i"
  shows "(if k < length (xs[i := w]) then xs[i := w] ! k else (0::word32)) =
         (if k < length xs then xs ! k else 0)"
  using assms by simp

lemma lo_hi_disjoint:
  fixes a :: word32
  assumes "a - 0x100000 < 0x100000"
  shows "\<not> a - 0x200000 < 0x100000"
proof -
  define x where "x = a - 0x100000"
  have lt: "unat x < 0x100000" using assms by (simp add: word_less_nat_alt x_def)
  have "a - 0x200000 = x - 0x100000" by (simp add: x_def)
  moreover have "unat (x - 0x100000) = unat x + 2 ^ 32 - 0x100000"
    using lt by (simp add: unat_sub_if_size word_size)
  ultimately show ?thesis using lt
    by (simp add: word_less_nat_alt)
qed

lemma image2_lo:
  assumes "(b - 0x100000) AND 3 = 0" "b - 0x100000 < 0x100000"
  shows "image2 lo hi b =
           (if unat (b - 0x100000) div 4 < length lo then lo ! (unat (b - 0x100000) div 4) else 0)"
  using assms by (simp add: image2_def Let_def)

lemma image2_hi:
  assumes "(b - 0x200000) AND 3 = 0" "b - 0x200000 < 0x100000"
  shows "image2 lo hi b =
           (if unat (b - 0x200000) div 4 < length hi then hi ! (unat (b - 0x200000) div 4) else 0)"
proof -
  have "\<not> b - 0x100000 < 0x100000"
    using lo_hi_disjoint [of b] assms by auto
  then show ?thesis using assms by (simp add: image2_def Let_def)
qed

lemma image2_lo_cong:
  assumes "\<not> ((b - 0x200000) AND 3 = 0 \<and> b - 0x200000 < 0x100000)"
  shows "image2 lo hi b = image2 lo hi' b"
  using assms by (auto simp add: image2_def Let_def)

lemma image2_hi_cong:
  assumes "\<not> ((b - 0x100000) AND 3 = 0 \<and> b - 0x100000 < 0x100000)"
  shows "image2 lo hi b = image2 lo' hi b"
  using assms by (auto simp add: image2_def Let_def)

lemma image2_upd_lo:
  assumes "(a - 0x100000) AND 3 = 0" "a - 0x100000 < 0x100000"
  shows "(image2 lo hi)(a := w) =
         image2 ((lo @ replicate (Suc (unat (a - 0x100000) div 4) - length lo) 0)
                   [unat (a - 0x100000) div 4 := w]) hi"
proof (rule ext)
  fix b
  let ?i = "unat (a - 0x100000) div 4"
  let ?lo = "lo @ replicate (Suc ?i - length lo) 0"
  have len: "?i < length ?lo" by simp
  show "((image2 lo hi)(a := w)) b = image2 (?lo[?i := w]) hi b"
  proof (cases "b = a")
    case True
    then show ?thesis using assms len by (simp add: image2_lo)
  next
    case False
    show ?thesis
    proof (cases "(b - 0x100000) AND 3 = 0 \<and> b - 0x100000 < 0x100000")
      case True
      then have ne: "unat (b - 0x100000) div 4 \<noteq> ?i"
        using aligned_div4_inj [of "b - 0x100000" "a - 0x100000"] assms False by auto
      have "image2 (?lo[?i := w]) hi b =
              (if unat (b - 0x100000) div 4 < length ?lo then ?lo ! (unat (b - 0x100000) div 4) else 0)"
        using True ne by (simp add: image2_lo)
      also have "\<dots> = (if unat (b - 0x100000) div 4 < length lo then lo ! (unat (b - 0x100000) div 4) else 0)"
        by (rule padded_nth)
      also have "\<dots> = image2 lo hi b"
        using True by (simp add: image2_lo)
      finally show ?thesis using False by simp
    next
      case False2: False
      have "image2 (?lo[?i := w]) hi b = image2 lo hi b"
        by (rule image2_hi_cong) (rule False2)
      then show ?thesis using False by simp
    qed
  qed
qed

lemma image2_upd_hi:
  assumes "(a - 0x200000) AND 3 = 0" "a - 0x200000 < 0x100000"
  shows "(image2 lo hi)(a := w) =
         image2 lo ((hi @ replicate (Suc (unat (a - 0x200000) div 4) - length hi) 0)
                   [unat (a - 0x200000) div 4 := w])"
proof (rule ext)
  fix b
  let ?i = "unat (a - 0x200000) div 4"
  let ?hi = "hi @ replicate (Suc ?i - length hi) 0"
  have len: "?i < length ?hi" by simp
  show "((image2 lo hi)(a := w)) b = image2 lo (?hi[?i := w]) b"
  proof (cases "b = a")
    case True
    then show ?thesis using assms len by (simp add: image2_hi)
  next
    case False
    show ?thesis
    proof (cases "(b - 0x200000) AND 3 = 0 \<and> b - 0x200000 < 0x100000")
      case True
      then have ne: "unat (b - 0x200000) div 4 \<noteq> ?i"
        using aligned_div4_inj [of "b - 0x200000" "a - 0x200000"] assms False by auto
      have "image2 lo (?hi[?i := w]) b =
              (if unat (b - 0x200000) div 4 < length ?hi then ?hi ! (unat (b - 0x200000) div 4) else 0)"
        using True ne by (simp add: image2_hi)
      also have "\<dots> = (if unat (b - 0x200000) div 4 < length hi then hi ! (unat (b - 0x200000) div 4) else 0)"
        by (rule padded_nth)
      also have "\<dots> = image2 lo hi b"
        using True by (simp add: image2_hi)
      finally show ?thesis using False by simp
    next
      case False2: False
      have "image2 lo (?hi[?i := w]) b = image2 lo hi b"
        by (rule image2_lo_cong) (rule False2)
      then show ?thesis using False by simp
    qed
  qed
qed


lemma list_update_numeral:
  "(x # xs)[numeral n := y] = x # xs[pred_numeral n := y]"
  by (simp add: numeral_eq_Suc)

lemma replicate_numeral:
  "replicate (numeral n) x = x # replicate (pred_numeral n) x"
  by (simp add: numeral_eq_Suc)

lemma memcpy_words_numeral:
  "memcpy_words (numeral n) dst src s = do {
     w \<leftarrow> load s src;
     s' \<leftarrow> store dst w s;
     memcpy_words (pred_numeral n) (dst + 4) (src + 4) s'
   }"
  by (simp add: numeral_eq_Suc)

lemma scan_slots_numeral:
  "scan_slots (numeral n) ptr s = do {
     w \<leftarrow> load s ptr;
     (w', s1) \<leftarrow> mem_copy w s;
     s2 \<leftarrow> store ptr w' s1;
     scan_slots (pred_numeral n) (ptr + 4) s2
   }"
  by (simp add: numeral_eq_Suc)

lemma vec_fill_numeral:
  "vec_fill (numeral n) v i x s = do { s' \<leftarrow> vec_set v i x s; vec_fill (pred_numeral n) v (i + 1) x s' }"
  by (simp add: numeral_eq_Suc)

lemma rec_fill_numeral:
  "rec_fill (numeral n) v i r s = do {
     x \<leftarrow> root s r;
     s' \<leftarrow> rec_set v i x s;
     rec_fill (pred_numeral n) v (i + 1) (r + 1) s'
   }"
  by (simp add: numeral_eq_Suc)

lemma sum_loop_numeral:
  "sum_loop (numeral n) s vals i x = do {
     v \<leftarrow> vec_ref s vals i;
     sum_loop (pred_numeral n) s vals (i + 1) (x + fixnum_num v)
   }"
  by (simp add: numeral_eq_Suc)

lemma mul_loop_numeral:
  "mul_loop (numeral n) s vals i x = do {
     v \<leftarrow> vec_ref s vals i;
     mul_loop (pred_numeral n) s vals (i + 1) (x * fixnum_num v)
   }"
  by (simp add: numeral_eq_Suc)

lemma frame_up_numeral:
  "frame_up (numeral n) s f = do { f' \<leftarrow> cdr s f; frame_up (pred_numeral n) s f' }"
  by (simp add: numeral_eq_Suc)

lemma splat_numeral:
  "splat (numeral n) f v i s = do {
     x \<leftarrow> vec_ref s v i;
     s' \<leftarrow> vec_set f (i + 2) x s;
     splat (pred_numeral n) f v (i + 1) s'
   }"
  by (simp add: numeral_eq_Suc)

text \<open>Comparison with the word 1, which is not a numeral.\<close>

lemma word_le_one:
  fixes x :: word32
  shows "(x \<le> 1) = (x = 0 \<or> x = 1)"
proof -
  have "(unat x \<le> 1) = (unat x = 0 \<or> unat x = 1)" by auto
  then show ?thesis
    by (simp add: word_le_nat_alt word_unat_eq_iff)
qed

lemmas word_defs = val_make_def val_tag_def val_payload_def val_signed_payload_def val_ptr_p_def
  val_ptr_make_def val_ptr_def val_ptr_any_tag_def head_make_def head_tag_def head_payload_def
  bool_f_def bool_t_def nil_def unspec_def chr_p_def fixnum_p_def fixnum_make_def fixnum_num_def
  pair_p_def vec_p_def bytev_p_def rec_p_def abs_int_def idx_def word_le_one

lemmas mem_defs = mem_size_def in_block_def valid_def load_def store_def
  pair_ptr_p_def vec_ptr_p_def vec_ptr_len_def bytev_ptr_p_def bytev_ptr_len_def code_ptr_p_def
  code_ptr_lit_begin_def code_ptr_lit_end_def rec_ptr_p_def rec_ptr_def rec_header_make_def
  rec_ptr_desc_def heap_of_def image2_def Let_def
  image2_upd_lo image2_upd_hi list_update_numeral replicate_numeral

lemmas gc_defs = mem_install_fwd_ptr_def mem_follow_fwd_ptr_def memcpy_def mem_copy_def
  scan_header_def mem_scan_def scan_loop.simps new_region_def mem_gc_def memcpy_words_numeral scan_slots_numeral

lemmas check_defs = shadow_index_def check_sizes.simps check_values.simps check_objects.simps
  mem_check_def

lemmas alloc_defs = DEBUG_GC_BEFORE_ALLOC_def mem_alloc_def pair_alloc_def pair_ptr_def
  vec_alloc_def vec_len_def vec_ptr_def rec_alloc_def rec_set_desc_def rec_desc_def
  GC_PROTECT_def GC_END_def root_def car_def cdr_def set_car_def set_cdr_def cons_def
  vec_ref_def vec_set_def vec_make_def rec_ref_def rec_set_def rec_make_def
  vec_fill_numeral rec_fill_numeral

lemmas eval_defs = boot_function_type_def boot_op_if_def boot_op_lambda_def boot_op_call_def
  boot_op_apply_def boot_op_quote_def boot_op_set_def boot_op_sum_def boot_op_mul_def
  boot_op_sum_func_def boot_op_mul_func_def boot_op_funcs_def protected_def PUSH_def POP_def
  eval_form_def do_op_step_def use_value_def step_def run.simps boot_eval_def
  sum_loop_numeral mul_loop_numeral frame_up_numeral splat_numeral

section \<open>Facts about the low bits of a word\<close>

lemma word_le7_cases:
  fixes w :: word32
  assumes "w \<le> 7"
  shows "w \<in> {0, 1, 2, 3, 4, 5, 6, 7}"
proof -
  from assms have "unat w \<le> 7" by (simp add: word_le_nat_alt)
  then have "unat w \<in> {0, 1, 2, 3, 4, 5, 6, 7}" by auto
  moreover have "w = of_nat (unat w)" by simp
  ultimately have "w \<in> of_nat ` {0, 1, 2, 3, 4, 5, 6, 7 :: nat}" by blast
  then show ?thesis by simp
qed

lemma low3_cases:
  fixes v :: word32
  shows "v AND 7 \<in> {0, 1, 2, 3, 4, 5, 6, 7}"
  by (rule word_le7_cases) (rule word_and_le1)

lemma low2_of_low3:
  fixes v :: word32
  shows "v AND 3 = (v AND 7) AND 3"
  by (simp add: and.assoc)

lemma low3_of_low6:
  fixes v :: word32
  shows "v AND 7 = (v AND 63) AND 7"
  by (simp add: and.assoc)

section \<open>Alignment of the allocation pointer during a collection\<close>


















section \<open>The pointer predicate\<close>

text \<open>
  C3, as stated: \<open>val_ptr_p v\<close> holds exactly when the low three bits of \<open>v\<close> are one of
  001, 010, 011, 101, and it is false for the tag 110.  The code tests only that the low
  two bits are not 00 and the low three bits are not 111, so the record descriptor tag
  110 passes: the word 6 is a counterexample.
\<close>

theorem val_ptr_p_tag6_counterexample:
  "val_ptr_p 6 \<and> (6 :: word32) AND 7 \<notin> {1, 2, 3, 5}"
  by (simp add: val_ptr_p_def val_tag_def)

text \<open>
  C3, amended: \<open>val_ptr_p v\<close> holds exactly when the low three bits of \<open>v\<close> are one of
  001, 010, 011, 101 or 110, that is, when the low two bits are not zero and the low
  three bits are not 111.
\<close>

theorem val_ptr_p_low3:
  "val_ptr_p v \<longleftrightarrow> v AND 7 \<in> {1, 2, 3, 5, 6}"
  using low3_cases [of v]
  apply (simp add: val_ptr_p_def val_tag_def)
  apply (subst low2_of_low3)
  apply auto
  done

section \<open>Telling pairs from other objects\<close>

text \<open>
  C6: for the first word \<open>w\<close> of a heap object, \<open>pair_ptr_p\<close> answers as follows.  When the
  low three bits of \<open>w\<close> are 111, it is a pair exactly when the low six bits are 100 111
  (a character) or 110 111 (a special value); when the low three bits are 110 it is not
  a pair; every other word is the first word of a pair.
\<close>

theorem pair_ptr_p_classifies:
  assumes "load s p = Some w"
  shows "pair_ptr_p s p =
           Some (if w AND 7 = 7 then w AND 63 = 0x27 \<or> w AND 63 = 0x37
                 else if w AND 7 = 6 then False
                 else True)"
  using assms by (simp add: pair_ptr_p_def head_tag_def)

theorem pair_ptr_p_classifies_witness:
  "load pair_heap 0x100000 = Some 4 \<and> pair_ptr_p pair_heap 0x100000 = Some True"
  using pair_ptr_p_classifies [of pair_heap "0x100000" 4]
  by (simp add: pair_heap_def word_defs mem_defs)

section \<open>Scanning a raw record\<close>

text \<open>
  C1 says that \<open>mem_scan\<close> on a raw record of the new region rewrites no payload word
  and returns the address behind the record.  In \<open>raw_heap\<close> the collector copies the raw
  record of two words to \<open>0x200000\<close>, so the next object starts at \<open>0x200010\<close>.  The scan
  leaves the two payload words alone, but it adds the negative size to the pointer and
  returns \<open>0x200000\<close>, the address of the record itself.
\<close>

theorem mem_scan_raw_record_returns_start:
  "do {
     (rs, s1) \<leftarrow> copy_roots (mem_roots raw_heap) (new_region raw_heap);
     (p, s2) \<leftarrow> mem_scan 0x200000 s1;
     Some (rs, mem_new_next s1, p, map (cells s2) [0x200004, 0x200008])
   } = Some ([0x200003], 0x200010, 0x200000, [0x11111110, 0x22222220])"
  by (simp add: raw_heap_def word_defs mem_defs gc_defs)

section \<open>Copying a code block\<close>

text \<open>
  C2 says that \<open>mem_copy\<close> gives a code block of byte length L with E literals
  \<open>ceil(L/4) + 1 + E\<close> words.  The code block of \<open>code_heap\<close> has L = 8 and one literal,
  which makes 4 words.  \<open>mem_copy\<close> adds the 4 words to what its local \<open>size\<close> held
  before, here 4, and so moves \<open>mem_new_next\<close> by 8 words, to \<open>0x200020\<close>.
\<close>

theorem mem_copy_code_block_adds_to_junk:
  "do {
     (v, s1) \<leftarrow> mem_copy 0x100005 (new_region code_heap);
     Some (v, mem_new_next s1)
   } = Some (0x200005, 0x200020)"
  by (simp add: code_heap_def word_defs mem_defs gc_defs)

section \<open>The checker and pointers into the middle of an object\<close>

text \<open>
  C5 says that the checker aborts when a value word points into the heap at an address
  where no object starts.  \<open>dangling_heap\<close> has such a word, and \<open>mem_check\<close> returns
  normally.
\<close>

theorem mem_check_accepts_dangling_pointer:
  "mem_check dangling_heap = Some ()"
  by (simp add: dangling_heap_def word_defs mem_defs check_defs)

section \<open>Evaluating a conditional\<close>






section \<open>Assignment\<close>

text \<open>
  The second step of \<open>set\<close> in general: the value that goes on to \<open>use_value\<close> is slot 1
  of the vector that the variable \<open>form\<close> points to.
\<close>

lemma POP_value:
  assumes "POP e s = Some e'"
  shows "value e' = value e" and "form e' = form e"
  using assms by (auto simp add: POP_def bind_eq_Some_conv)

lemma set_second_step:
  assumes "top_op e = boot_op_set" and "top_pos e \<noteq> 1"
    and "do_op_step e s = Some (Goto l e' s')"
  shows "l = Use_value \<and> vec_ref s (form e) 1 = Some (value e')"
proof -
  from assms obtain v e1 where "vec_ref s (form e) 1 = Some v" and "POP (e\<lparr>value := v\<rparr>) s' = Some e1"
    and "l = Use_value" and "e' = e1"
    by (auto simp add: do_op_step_def boot_op_set_def boot_op_if_def bind_eq_Some_conv)
  then show ?thesis
    using POP_value(1) [of "e\<lparr>value := v\<rparr>" s' e1] by simp
qed

text \<open>
  C4 says that \<open>set\<close> stores the value of its second argument in the frame and returns
  it, whatever the second argument is.  In the state \<open>set_vars\<close>, \<open>set_frame_heap\<close> the
  second argument \<open>[sum [quote 1] [quote 2]]\<close> has the value 3, which is in slot 2 of the
  result vector.  The evaluator stores and returns 2: it reads \<open>vec_ref (form, 1)\<close>, slot
  1 of the form evaluated last, and never reads the result vector.
\<close>

theorem set_stores_slot_of_last_form:
  "vec_ref set_frame_heap (top_result set_vars) 2 = Some (fixnum_make 3) \<and>
   do {
     (v, s) \<leftarrow> run Do_op_step set_vars set_frame_heap;
     x \<leftarrow> vec_ref s 0x10005A 2;
     Some (v, x)
   } = Some (fixnum_make 2, fixnum_make 2)"
  by (simp add: set_vars_def set_frame_heap_def word_defs mem_defs alloc_defs eval_defs)

section \<open>Sums and products that leave the range of small integers\<close>

text \<open>
  C7, as stated, says that the evaluator notices a sum or a product outside the range
  of small integers.  \<open>boot_eval\<close> on \<open>[sum [quote 536870911] [quote 2]]\<close> returns the small
  integer -536870911, which is 536870913 wrapped around at 30 bits.
\<close>

theorem boot_eval_sum_overflow_counterexample:
  "map_option fst (boot_eval 0x100002 overflow_heap) = Some (fixnum_make (- 536870911)) \<and>
   sint (fixnum_num (fixnum_make 536870911)) = 536870911 \<and>
   sint (fixnum_num (fixnum_make 2)) = 2 \<and>
   sint (fixnum_num (fixnum_make (- 536870911))) = - 536870911 \<and>
   fixnum_make (- 536870911) \<noteq> unspec"
  by (simp add: overflow_heap_def word_defs mem_defs gc_defs alloc_defs eval_defs)

lemma sum_loop_sum:
  "length ws = k \<Longrightarrow> \<forall>j<k. vec_ref s vals (i + of_nat j) = Some (ws ! j) \<Longrightarrow>
     sum_loop k s vals i x = Some (x + sum_list (map fixnum_num ws))"
proof (induction k arbitrary: ws i x)
  case 0
  then show ?case by simp
next
  case (Suc k)
  then obtain w ws' where ws: "ws = w # ws'" "length ws' = k"
    by (cases ws) auto
  have first: "vec_ref s vals i = Some w"
  proof -
    have "vec_ref s vals (i + of_nat 0) = Some (ws ! 0)"
      using Suc.prems(2) by blast
    then show ?thesis using ws by simp
  qed
  have rest: "\<forall>j<k. vec_ref s vals (i + 1 + of_nat j) = Some (ws' ! j)"
  proof (intro allI impI)
    fix j assume "j < k"
    then have "Suc j < Suc k" by simp
    with Suc.prems(2) have "vec_ref s vals (i + of_nat (Suc j)) = Some (ws ! Suc j)"
      by blast
    then show "vec_ref s vals (i + 1 + of_nat j) = Some (ws' ! j)"
      using ws by (simp add: add.assoc)
  qed
  show ?case
    using first Suc.IH [OF ws(2) rest] ws by (simp add: add.assoc)
qed


lemma mul_loop_prod:
  "length ws = k \<Longrightarrow> \<forall>j<k. vec_ref s vals (i + of_nat j) = Some (ws ! j) \<Longrightarrow>
     mul_loop k s vals i x = Some (x * prod_list (map fixnum_num ws))"
proof (induction k arbitrary: ws i x)
  case 0
  then show ?case by simp
next
  case (Suc k)
  then obtain w ws' where ws: "ws = w # ws'" "length ws' = k"
    by (cases ws) auto
  have first: "vec_ref s vals i = Some w"
  proof -
    have "vec_ref s vals (i + of_nat 0) = Some (ws ! 0)"
      using Suc.prems(2) by blast
    then show ?thesis using ws by simp
  qed
  have rest: "\<forall>j<k. vec_ref s vals (i + 1 + of_nat j) = Some (ws' ! j)"
  proof (intro allI impI)
    fix j assume "j < k"
    then have "Suc j < Suc k" by simp
    with Suc.prems(2) have "vec_ref s vals (i + of_nat (Suc j)) = Some (ws ! Suc j)"
      by blast
    then show "vec_ref s vals (i + 1 + of_nat j) = Some (ws' ! j)"
      using ws by (simp add: add.assoc)
  qed
  show ?case
    using first Suc.IH [OF ws(2) rest] ws by (simp add: mult.assoc add.assoc)
qed


lemma fixnum_num_make: "fixnum_num (fixnum_make x) = signed_take_bit 29 x"
  apply (rule bit_word_eqI)
  apply (auto simp add: fixnum_num_def fixnum_make_def val_make_def val_signed_payload_def bit_simps)
  done

text \<open>
  C7, amended: for a result vector of length \<open>l\<close> whose slots from 1 on hold the words
  \<open>ws\<close>, \<open>boot_op_sum_func\<close> and \<open>boot_op_mul_func\<close> return the sum and the product of the
  small integers in \<open>ws\<close>, computed in 32 bits, as a small integer.  They check nothing:
  the small integer returned is the sum or product wrapped around at 30 bits.
\<close>

theorem boot_op_sum_mul_wrap:
  assumes "vec_len s vals = Some l" and "unat l = Suc (length ws)"
    and "\<forall>j<length ws. vec_ref s vals (1 + of_nat j) = Some (ws ! j)"
  shows "boot_op_sum_func s vals = Some (fixnum_make (sum_list (map fixnum_num ws))) \<and>
         boot_op_mul_func s vals = Some (fixnum_make (prod_list (map fixnum_num ws))) \<and>
         fixnum_num (fixnum_make (sum_list (map fixnum_num ws))) =
           signed_take_bit 29 (sum_list (map fixnum_num ws)) \<and>
         fixnum_num (fixnum_make (prod_list (map fixnum_num ws))) =
           signed_take_bit 29 (prod_list (map fixnum_num ws))"
  using assms sum_loop_sum [OF refl assms(3), of 0] mul_loop_prod [OF refl assms(3), of 1]
  by (simp add: boot_op_sum_func_def boot_op_mul_func_def fixnum_num_make)

theorem boot_op_sum_mul_wrap_witness:
  "vec_len overflow_heap 0x100032 = Some 3 \<and>
   vec_ref overflow_heap 0x100032 1 = Some (fixnum_make 536870911) \<and>
   vec_ref overflow_heap 0x100032 2 = Some (fixnum_make 2) \<and>
   boot_op_sum_func overflow_heap 0x100032 = Some (fixnum_make (- 536870911)) \<and>
   boot_op_mul_func overflow_heap 0x100032 = Some (fixnum_make (- 2))"
proof -
  let ?ws = "[fixnum_make 536870911, fixnum_make 2]"
  have l: "vec_len overflow_heap 0x100032 = Some 3"
    by (simp add: overflow_heap_def word_defs mem_defs alloc_defs)
  have n: "unat (3 :: word32) = Suc (length ?ws)"
    by simp
  have s1: "vec_ref overflow_heap 0x100032 1 = Some (fixnum_make 536870911)"
    and s2: "vec_ref overflow_heap 0x100032 2 = Some (fixnum_make 2)"
    by (simp_all add: overflow_heap_def word_defs mem_defs alloc_defs)
  have "vec_ref overflow_heap 0x100032 (1 + of_nat j) = Some (?ws ! j)" if "j < length ?ws" for j
  proof -
    from that have "j = 0 \<or> j = 1" by auto
    then show ?thesis using s1 s2 by auto
  qed
  then have r: "\<forall>j<length ?ws. vec_ref overflow_heap 0x100032 (1 + of_nat j) = Some (?ws ! j)"
    by blast
  from boot_op_sum_mul_wrap [OF l n r]
  have "boot_op_sum_func overflow_heap 0x100032 = Some (fixnum_make (- 536870911))"
    and "boot_op_mul_func overflow_heap 0x100032 = Some (fixnum_make (- 2))"
    by (simp_all add: word_defs)
  then show ?thesis using l s1 s2 by simp
qed

section \<open>Allocation\<close>



section \<open>Making a vector\<close>








end
